theory Spec2Isabelle
  imports Complex_Main "HOL-Library.Sublist" "HOL-Library.Multiset"
begin

section \<open>Floating-point values of the price and metrics tables\<close>

text \<open>
  The script \<^verbatim>\<open>dashboard.py\<close> works on pandas tables of float64 cells. A cell is
  modelled as a finite real, one of the two infinities, or NaN. Arithmetic on finite
  cells is exact real arithmetic: rounding, overflow and the sign of zero are not
  modelled (a zero divisor counts as +0). What is modelled is how NaN and the infinities
  arise and propagate, since pandas and numpy never raise on them: a division by zero
  yields an infinity or NaN, and every comparison with NaN is false.
\<close>

datatype fl = Fin real | PInf | NInf | NaN

fun fl_neg :: "fl \<Rightarrow> fl" where
  "fl_neg (Fin x) = Fin (- x)"
| "fl_neg PInf = NInf"
| "fl_neg NInf = PInf"
| "fl_neg NaN = NaN"

fun fl_add :: "fl \<Rightarrow> fl \<Rightarrow> fl" where
  "fl_add NaN b = NaN"
| "fl_add a NaN = NaN"
| "fl_add (Fin x) (Fin y) = Fin (x + y)"
| "fl_add (Fin x) b = b"
| "fl_add a (Fin y) = a"
| "fl_add PInf PInf = PInf"
| "fl_add NInf NInf = NInf"
| "fl_add PInf NInf = NaN"
| "fl_add NInf PInf = NaN"

definition fl_sub :: "fl \<Rightarrow> fl \<Rightarrow> fl" where
  "fl_sub a b = fl_add a (fl_neg b)"

text \<open>The sign of a cell: 1, -1 or 0; NaN has none.\<close>

fun fl_sign :: "fl \<Rightarrow> real" where
  "fl_sign (Fin x) = sgn x"
| "fl_sign PInf = 1"
| "fl_sign NInf = - 1"
| "fl_sign NaN = 0"

definition inf_of_sign :: "real \<Rightarrow> fl" where
  "inf_of_sign s = (if 0 < s then PInf else if s < 0 then NInf else NaN)"

fun fl_mul :: "fl \<Rightarrow> fl \<Rightarrow> fl" where
  "fl_mul NaN b = NaN"
| "fl_mul a NaN = NaN"
| "fl_mul (Fin x) (Fin y) = Fin (x * y)"
| "fl_mul a b = inf_of_sign (fl_sign a * fl_sign b)"

text \<open>
  Division as numpy does it on float64: no exception, \<open>x / 0\<close> is an infinity of the
  sign of \<open>x\<close>, and \<open>0 / 0\<close>, \<open>inf / inf\<close> are NaN.
\<close>

fun fl_div :: "fl \<Rightarrow> fl \<Rightarrow> fl" where
  "fl_div NaN b = NaN"
| "fl_div a NaN = NaN"
| "fl_div (Fin x) (Fin y) = (if y = 0 then inf_of_sign (sgn x) else Fin (x / y))"
| "fl_div (Fin x) b = Fin 0"
| "fl_div a (Fin y) = inf_of_sign (fl_sign a * (if y < 0 then - 1 else 1))"
| "fl_div a b = NaN"

fun fl_sqrt :: "fl \<Rightarrow> fl" where
  "fl_sqrt (Fin x) = (if x < 0 then NaN else Fin (sqrt x))"
| "fl_sqrt PInf = PInf"
| "fl_sqrt NInf = NaN"
| "fl_sqrt NaN = NaN"

fun fl_lt :: "fl \<Rightarrow> fl \<Rightarrow> bool" where
  "fl_lt NaN b = False"
| "fl_lt a NaN = False"
| "fl_lt (Fin x) (Fin y) = (x < y)"
| "fl_lt a NInf = False"
| "fl_lt PInf b = False"
| "fl_lt NInf b = True"
| "fl_lt a PInf = True"

definition fl_gt :: "fl \<Rightarrow> fl \<Rightarrow> bool" where
  "fl_gt a b = fl_lt b a"

definition isna :: "fl \<Rightarrow> bool" where
  "isna x = (x = NaN)"

fun fl_sum :: "fl list \<Rightarrow> fl" where
  "fl_sum [] = Fin 0"
| "fl_sum (x # xs) = fl_add x (fl_sum xs)"

definition fl_mean :: "fl list \<Rightarrow> fl" where
  "fl_mean xs = fl_div (fl_sum xs) (Fin (real (length xs)))"

section \<open>The price table\<close>

text \<open>
  A DataFrame of closing prices: the index holds the trading days (as day numbers,
  ascending), and every column is a ticker with one cell per day, in the column order
  of the table.
\<close>

type_synonym column = "string \<times> fl list"

record frame =
  index :: "nat list"
  columns :: "column list"

definition wf_frame :: "frame \<Rightarrow> bool" where
  "wf_frame df =
     (list_all (\<lambda>c. length (snd c) = length (index df)) (columns df)
      \<and> distinct (map fst (columns df))
      \<and> sorted_wrt (<) (index df))"

datatype error = KeyError string | IndexError

text \<open>Line 30, \<^verbatim>\<open>data.dropna(axis=1)\<close>: a column goes when any of its cells is missing.\<close>

definition dropna :: "frame \<Rightarrow> frame" where
  "dropna df = df\<lparr>columns := filter (\<lambda>c. \<not> list_ex isna (snd c)) (columns df)\<rparr>"

text \<open>Line 33, \<^verbatim>\<open>data['SPY']\<close>: the column of that label, KeyError when there is none.\<close>

definition getitem :: "frame \<Rightarrow> string \<Rightarrow> error + fl list" where
  "getitem df k = (case map_of (columns df) k of None \<Rightarrow> Inl (KeyError k) | Some xs \<Rightarrow> Inr xs)"

text \<open>Line 34, \<^verbatim>\<open>data.drop('SPY', axis=1)\<close>.\<close>

definition drop_column :: "frame \<Rightarrow> string \<Rightarrow> error + frame" where
  "drop_column df k =
     (if k \<in> set (map fst (columns df))
      then Inr (df\<lparr>columns := filter (\<lambda>c. fst c \<noteq> k) (columns df)\<rparr>)
      else Inl (KeyError k))"

section \<open>The metrics engine\<close>

text \<open>
  Line 40, \<^verbatim>\<open>rolling(window=50).mean()\<close>: position \<open>i\<close> holds the mean of the \<open>w\<close> cells
  ending at \<open>i\<close>, and NaN while fewer than \<open>w\<close> cells are there (pandas takes
  \<^verbatim>\<open>min_periods\<close> to be the window). A NaN inside the window makes the mean NaN.
\<close>

definition rolling_mean :: "nat \<Rightarrow> fl list \<Rightarrow> fl list" where
  "rolling_mean w xs =
     map (\<lambda>i. if i + 1 < w then NaN else fl_mean (take w (drop (i + 1 - w) xs)))
       [0..<length xs]"

text \<open>
  Lines 41 to 46 for one column; \<^verbatim>\<open>iloc[-1]\<close> is the last row (the engine below raises
  IndexError before this is reached on a table with no rows).
\<close>

definition dist_sma :: "fl list \<Rightarrow> fl" where
  "dist_sma xs =
     (let current_price = last xs;
          current_sma = last (rolling_mean 50 xs)
      in fl_mul (fl_div (fl_sub current_price current_sma) current_sma) (Fin 100))"

text \<open>
  Lines 50 and 57, \<^verbatim>\<open>pct_change()\<close>: each cell over the one before it, minus one; the
  first cell has nothing before it and is NaN.
\<close>

definition pct_change :: "fl list \<Rightarrow> fl list" where
  "pct_change xs = map (\<lambda>(x, prev). fl_sub (fl_div x prev) (Fin 1)) (zip xs (NaN # xs))"

text \<open>
  \<^verbatim>\<open>var()\<close> and \<^verbatim>\<open>std()\<close> of pandas: NaN cells are skipped, the divisor is the count
  less one (\<^verbatim>\<open>ddof=1\<close>), and the result is NaN when at most one cell is left.
\<close>

definition nanvar :: "fl list \<Rightarrow> fl" where
  "nanvar xs =
     (let vs = filter (\<lambda>x. \<not> isna x) xs;
          n = length vs
      in if n \<le> 1 then NaN
         else let avg = fl_mean vs;
                  sqr = map (\<lambda>v. fl_mul (fl_sub avg v) (fl_sub avg v)) vs
              in fl_div (fl_sum sqr) (Fin (real n - 1)))"

definition nanstd :: "fl list \<Rightarrow> fl" where
  "nanstd xs = fl_sqrt (nanvar xs)"

text \<open>
  \<^verbatim>\<open>Series.cov\<close>: the days on which both series have a value are kept, and numpy's
  \<^verbatim>\<open>cov\<close> of the two is taken: the sum of the products of the deviations, times one
  over the count less one (a divisor that is not positive is replaced by zero).
\<close>

definition np_cov :: "fl list \<Rightarrow> fl list \<Rightarrow> fl" where
  "np_cov a b =
     (let avg_a = fl_mean a;
          avg_b = fl_mean b;
          fact = (if length a \<le> 1 then 0 else real (length a) - 1);
          c = fl_sum (map (\<lambda>(x, y). fl_mul (fl_sub x avg_a) (fl_sub y avg_b)) (zip a b))
      in fl_mul c (fl_div (Fin 1) (Fin fact)))"

definition nancov :: "fl list \<Rightarrow> fl list \<Rightarrow> fl" where
  "nancov a b =
     (let valid = filter (\<lambda>(x, y). \<not> isna x \<and> \<not> isna y) (zip a b)
      in if length valid < 1 then NaN else np_cov (map fst valid) (map snd valid))"

text \<open>Line 53.\<close>

definition volatility :: "fl list \<Rightarrow> fl" where
  "volatility xs = fl_mul (fl_mul (nanstd (pct_change xs)) (Fin (sqrt 252))) (Fin 100)"

text \<open>
  Lines 61 to 66, the body of the loop: the division has no guard. The two statistics are
  computed here in exact arithmetic on finite cells; where the variance is zero or close to
  zero the library's rounded values can differ from them.
\<close>

definition beta :: "fl list \<Rightarrow> fl list \<Rightarrow> fl" where
  "beta xs spy_data =
     (let daily_returns = pct_change xs;
          spy_returns = pct_change spy_data;
          cov = nancov daily_returns spy_returns;
          var = nanvar spy_returns
      in fl_div cov var)"

record metrics_row =
  Ticker :: string
  Distance_SMA :: fl
  Volatility :: fl
  Beta :: fl

definition metrics_row_of :: "fl list \<Rightarrow> column \<Rightarrow> metrics_row" where
  "metrics_row_of spy_data c =
     \<lparr>Ticker = fst c, Distance_SMA = dist_sma (snd c), Volatility = volatility (snd c),
      Beta = beta (snd c) spy_data\<rparr>"

text \<open>
  Lines 33 to 74 on the cleaned table: the benchmark column is taken out, and every
  other column gives one row of the metrics table, in column order.
\<close>

definition metrics_engine :: "frame \<Rightarrow> error + metrics_row list" where
  "metrics_engine data =
     (case getitem data ''SPY'' of
        Inl e \<Rightarrow> Inl e
      | Inr spy_data \<Rightarrow>
          (case drop_column data ''SPY'' of
             Inl e \<Rightarrow> Inl e
           | Inr stock_data \<Rightarrow>
               if index stock_data = [] then Inl IndexError
               else Inr (map (metrics_row_of spy_data) (columns stock_data))))"

text \<open>
  Lines 61 to 74 again with the two statistics of the library left open: \<open>cov_f\<close> and
  \<open>var_f\<close> stand for \<^verbatim>\<open>Series.cov\<close> and \<^verbatim>\<open>Series.var\<close> as they compute in floating
  point, whatever they round to. The engine above is the instance at the exact statistics.
\<close>

definition beta_with ::
  "(fl list \<Rightarrow> fl list \<Rightarrow> fl) \<Rightarrow> (fl list \<Rightarrow> fl) \<Rightarrow> fl list \<Rightarrow> fl list \<Rightarrow> fl" where
  "beta_with cov_f var_f xs spy_data =
     (let daily_returns = pct_change xs;
          spy_returns = pct_change spy_data;
          cov = cov_f daily_returns spy_returns;
          var = var_f spy_returns
      in fl_div cov var)"

definition metrics_row_with ::
  "(fl list \<Rightarrow> fl list \<Rightarrow> fl) \<Rightarrow> (fl list \<Rightarrow> fl) \<Rightarrow> fl list \<Rightarrow> column \<Rightarrow> metrics_row" where
  "metrics_row_with cov_f var_f spy_data c =
     \<lparr>Ticker = fst c, Distance_SMA = dist_sma (snd c), Volatility = volatility (snd c),
      Beta = beta_with cov_f var_f (snd c) spy_data\<rparr>"

definition metrics_engine_with ::
  "(fl list \<Rightarrow> fl list \<Rightarrow> fl) \<Rightarrow> (fl list \<Rightarrow> fl) \<Rightarrow> frame \<Rightarrow> error + metrics_row list" where
  "metrics_engine_with cov_f var_f data =
     (case getitem data ''SPY'' of
        Inl e \<Rightarrow> Inl e
      | Inr spy_data \<Rightarrow>
          (case drop_column data ''SPY'' of
             Inl e \<Rightarrow> Inl e
           | Inr stock_data \<Rightarrow>
               if index stock_data = [] then Inl IndexError
               else Inr (map (metrics_row_with cov_f var_f spy_data) (columns stock_data))))"

section \<open>Breadth counts and the screener\<close>

text \<open>Lines 84 to 86.\<close>

definition bullish :: "metrics_row \<Rightarrow> bool" where
  "bullish r = fl_gt (Distance_SMA r) (Fin 0)"

definition bullish_count :: "metrics_row list \<Rightarrow> nat" where
  "bullish_count m = length (filter bullish m)"

definition bearish_count :: "metrics_row list \<Rightarrow> nat" where
  "bearish_count m = length m - bullish_count m"

text \<open>
  \<^verbatim>\<open>sort_values(by='Distance_SMA', ascending=False)\<close>: pandas sorts the rows whose key is
  not NaN by reversing them, sorting ascending and reversing again, and puts the rows
  with a NaN key last. The ascending sort is modelled by a stable insertion sort; the
  order numpy's default sort gives to rows of equal key is not specified, and no theorem
  below depends on it.
\<close>

fun insort_row :: "metrics_row \<Rightarrow> metrics_row list \<Rightarrow> metrics_row list" where
  "insort_row r [] = [r]"
| "insort_row r (y # ys) =
     (if fl_lt (Distance_SMA y) (Distance_SMA r) then y # insort_row r ys else r # y # ys)"

fun sort_asc :: "metrics_row list \<Rightarrow> metrics_row list" where
  "sort_asc [] = []"
| "sort_asc (r # rs) = insort_row r (sort_asc rs)"

definition sort_values_desc :: "metrics_row list \<Rightarrow> metrics_row list" where
  "sort_values_desc rs =
     rev (sort_asc (rev (filter (\<lambda>r. \<not> isna (Distance_SMA r)) rs)))
       @ filter (\<lambda>r. isna (Distance_SMA r)) rs"

text \<open>
  Line 137, with its two thresholds as parameters; the script calls it at 5 and 25.
\<close>

definition screener_with :: "real \<Rightarrow> real \<Rightarrow> metrics_row list \<Rightarrow> metrics_row list" where
  "screener_with trend_floor vol_ceiling m =
     take 5 (sort_values_desc
       (filter (\<lambda>r. fl_gt (Distance_SMA r) (Fin trend_floor)
                    \<and> fl_lt (Volatility r) (Fin vol_ceiling)) m))"

definition screener :: "metrics_row list \<Rightarrow> metrics_row list" where
  "screener m = screener_with 5 25 m"

section \<open>The run\<close>

record report =
  metrics :: "metrics_row list"
  bullish_n :: nat
  bearish_n :: nat
  candidates :: "metrics_row list"

text \<open>
  Lines 30 to 74 on the downloaded table, and what lines 84 to 86 and 137 compute from the
  metrics table. An exception of lines 30 to 74 ends the run with no report. The chart
  code of lines 77 to 133 runs in between and is not modelled: a report says nothing about
  the charts, which can raise themselves.
\<close>

definition run :: "frame \<Rightarrow> error + report" where
  "run raw =
     (case metrics_engine (dropna raw) of
        Inl e \<Rightarrow> Inl e
      | Inr m \<Rightarrow>
          Inr \<lparr>metrics = m, bullish_n = bullish_count m, bearish_n = bearish_count m,
               candidates = screener m\<rparr>)"

section \<open>Notions the statements use\<close>

text \<open>The comparison \<^verbatim>\<open><=\<close> on cells: false as soon as a side is NaN.\<close>

definition fl_le :: "fl \<Rightarrow> fl \<Rightarrow> bool" where
  "fl_le a b = (fl_lt a b \<or> (a = b \<and> \<not> isna a))"

text \<open>The row filter of line 137, and the order of two rows by trend distance.\<close>

definition passes :: "real \<Rightarrow> real \<Rightarrow> metrics_row \<Rightarrow> bool" where
  "passes trend_floor vol_ceiling r =
     (fl_gt (Distance_SMA r) (Fin trend_floor) \<and> fl_lt (Volatility r) (Fin vol_ceiling))"

abbreviation asc :: "metrics_row \<Rightarrow> metrics_row \<Rightarrow> bool" where
  "asc a b \<equiv> fl_le (Distance_SMA a) (Distance_SMA b)"

text \<open>The observations of a column: its cells that are not missing.\<close>

definition observations :: "column \<Rightarrow> nat" where
  "observations c = length (filter (\<lambda>x. \<not> isna x) (snd c))"

text \<open>An undefined number corresponds to NaN.\<close>

fun fl_of_option :: "real option \<Rightarrow> fl" where
  "fl_of_option None = NaN"
| "fl_of_option (Some x) = Fin x"

section \<open>The formulas of the specification\<close>

text \<open>
  The trailing mean of the last fifty closes and the trend distance, in real arithmetic, as
  the specification words them.
\<close>

definition last_sma :: "real list \<Rightarrow> real" where
  "last_sma ps = sum_list (drop (length ps - 50) ps) / 50"

definition trend_distance :: "real list \<Rightarrow> real" where
  "trend_distance ps = (last ps - last_sma ps) / last_sma ps * 100"

text \<open>
  Daily returns, their sample standard deviation (undefined below two returns) and the
  annualised volatility in percent, in real arithmetic, as the specification words them.
\<close>

definition returns_of :: "real list \<Rightarrow> real list" where
  "returns_of ps = map (\<lambda>(x, prev). x / prev - 1) (zip (tl ps) ps)"

definition mean :: "real list \<Rightarrow> real" where
  "mean rs = sum_list rs / real (length rs)"

definition sample_variance :: "real list \<Rightarrow> real" where
  "sample_variance rs = (\<Sum>r\<leftarrow>rs. (r - mean rs)\<^sup>2) / (real (length rs) - 1)"

definition sample_std :: "real list \<Rightarrow> real option" where
  "sample_std rs = (if length rs < 2 then None else Some (sqrt (sample_variance rs)))"

definition volatility_pct :: "real list \<Rightarrow> real option" where
  "volatility_pct ps = map_option (\<lambda>sd. sd * sqrt 252 * 100) (sample_std (returns_of ps))"

section \<open>Example tables\<close>

text \<open>A table with a gap in one column, and one with a gap in the benchmark.\<close>

definition ex_gap :: frame where
  "ex_gap =
     \<lparr>index = [0, 1],
      columns = [(''AAPL'', [Fin 1, Fin 2]), (''MSFT'', [Fin 3, NaN]), (''SPY'', [Fin 5, Fin 6])]\<rparr>"

definition ex_no_spy :: frame where
  "ex_no_spy =
     \<lparr>index = [0, 1], columns = [(''AAPL'', [Fin 1, Fin 2]), (''SPY'', [NaN, Fin 6])]\<rparr>"

text \<open>A metrics table with NaN cells, an infinite trend distance and seven passing rows.\<close>

definition ex_metrics :: "metrics_row list" where
  "ex_metrics =
     [\<lparr>Ticker = ''A'', Distance_SMA = Fin 10, Volatility = Fin 20, Beta = Fin 1\<rparr>,
      \<lparr>Ticker = ''B'', Distance_SMA = NaN, Volatility = Fin 10, Beta = Fin 1\<rparr>,
      \<lparr>Ticker = ''C'', Distance_SMA = Fin 7, Volatility = Fin 30, Beta = Fin 2\<rparr>,
      \<lparr>Ticker = ''D'', Distance_SMA = Fin 12, Volatility = Fin 24, Beta = NaN\<rparr>,
      \<lparr>Ticker = ''E'', Distance_SMA = Fin 5, Volatility = Fin 10, Beta = Fin 1\<rparr>,
      \<lparr>Ticker = ''F'', Distance_SMA = Fin 6, Volatility = Fin 10, Beta = Fin 1\<rparr>,
      \<lparr>Ticker = ''G'', Distance_SMA = Fin 30, Volatility = NaN, Beta = Fin 1\<rparr>,
      \<lparr>Ticker = ''H'', Distance_SMA = Fin 8, Volatility = Fin 5, Beta = Fin 1\<rparr>,
      \<lparr>Ticker = ''I'', Distance_SMA = Fin 9, Volatility = Fin 5, Beta = Fin 1\<rparr>,
      \<lparr>Ticker = ''J'', Distance_SMA = Fin 11, Volatility = Fin 1, Beta = Fin 1\<rparr>,
      \<lparr>Ticker = ''K'', Distance_SMA = PInf, Volatility = Fin 3, Beta = Fin 1\<rparr>]"

text \<open>Three days of history, and the row of the one asset.\<close>

definition ex_short :: frame where
  "ex_short =
     \<lparr>index = [0, 1, 2],
      columns = [(''A'', [Fin 100, Fin 110, Fin 121]), (''SPY'', [Fin 50, Fin 55, Fin 66])]\<rparr>"

definition ex_short_row :: metrics_row where
  "ex_short_row = metrics_row_of [Fin 50, Fin 55, Fin 66] (''A'', [Fin 100, Fin 110, Fin 121])"

text \<open>Sixty days, with an asset listed on day 30: it has thirty observations.\<close>

definition ex_ipo :: frame where
  "ex_ipo =
     \<lparr>index = [0..<60],
      columns = [(''NEW'', replicate 30 NaN @ replicate 30 (Fin 10)),
                 (''OLD'', replicate 60 (Fin 20)),
                 (''SPY'', replicate 60 (Fin 400))]\<rparr>"

definition ex_ipo_old :: metrics_row where
  "ex_ipo_old = metrics_row_of (replicate 60 (Fin 400)) (''OLD'', replicate 60 (Fin 20))"

text \<open>
  Fifty days: one asset ends above its fifty-day mean, the other is flat and ends on it.
\<close>

definition ex_trend :: frame where
  "ex_trend =
     \<lparr>index = [0..<50],
      columns = [(''AAPL'', map Fin (replicate 49 100 @ [150])),
                 (''KO'', map Fin (replicate 50 60)),
                 (''SPY'', map Fin (replicate 50 400))]\<rparr>"

definition ex_trend_aapl :: metrics_row where
  "ex_trend_aapl =
     metrics_row_of (map Fin (replicate 50 400)) (''AAPL'', map Fin (replicate 49 100 @ [150]))"

definition ex_trend_ko :: metrics_row where
  "ex_trend_ko =
     metrics_row_of (map Fin (replicate 50 400)) (''KO'', map Fin (replicate 50 60))"

text \<open>Three days with returns of 10 and 20 percent.\<close>

definition ex_vol :: frame where
  "ex_vol =
     \<lparr>index = [0, 1, 2],
      columns = [(''A'', map Fin [100, 110, 132]), (''SPY'', map Fin [50, 55, 66])]\<rparr>"

definition ex_vol_row :: metrics_row where
  "ex_vol_row = metrics_row_of (map Fin [50, 55, 66]) (''A'', map Fin [100, 110, 132])"



text \<open>A benchmark that never moves.\<close>

definition ex_flat :: frame where
  "ex_flat =
     \<lparr>index = [0, 1, 2],
      columns = [(''A'', [Fin 100, Fin 110, Fin 121]), (''SPY'', [Fin 50, Fin 50, Fin 50])]\<rparr>"

definition ex_flat_row :: metrics_row where
  "ex_flat_row = metrics_row_of [Fin 50, Fin 50, Fin 50] (''A'', [Fin 100, Fin 110, Fin 121])"

section \<open>The cleaner\<close>

lemma getitem_absent: "k \<notin> fst ` set (columns df) \<Longrightarrow> getitem df k = Inl (KeyError k)"
  by (simp add: getitem_def map_of_eq_None_iff[THEN iffD2])

lemma getitem_present:
  assumes "distinct (map fst (columns df))" "(k, xs) \<in> set (columns df)"
  shows "getitem df k = Inr xs"
  using assms by (simp add: getitem_def)

text \<open>
  C7. The cleaner drops exactly the columns that hold a missing cell: a column of the
  input survives if and only if none of its cells is missing, nothing else appears, no
  surviving column has a missing cell, and cleaning a cleaned table changes nothing.
\<close>

theorem dropna_exact:
  "(\<forall>c\<in>set (columns df). c \<in> set (columns (dropna df)) \<longleftrightarrow> \<not> list_ex isna (snd c))
   \<and> set (columns (dropna df)) \<subseteq> set (columns df)
   \<and> (\<forall>c\<in>set (columns (dropna df)). \<forall>x\<in>set (snd c). \<not> isna x)
   \<and> dropna (dropna df) = dropna df"
  by (auto simp: dropna_def list_ex_iff)

theorem dropna_exact_witness:
  "(''MSFT'', [Fin 3, NaN]) \<in> set (columns ex_gap)
   \<and> (''MSFT'', [Fin 3, NaN]) \<notin> set (columns (dropna ex_gap))
   \<and> columns (dropna ex_gap) = [(''AAPL'', [Fin 1, Fin 2]), (''SPY'', [Fin 5, Fin 6])]
   \<and> dropna (dropna ex_gap) = dropna ex_gap"
  using dropna_exact [of ex_gap]
  by (simp add: ex_gap_def dropna_def isna_def)

text \<open>
  C10. The cleaner only removes whole columns: the index (the days, their order and
  their number) is the input's, the surviving columns are a subsequence of the input's
  columns, each with its label and all its cells as they were, and a well-formed table
  stays well-formed.
\<close>

theorem dropna_frame:
  "index (dropna df) = index df
   \<and> length (index (dropna df)) = length (index df)
   \<and> subseq (columns (dropna df)) (columns df)
   \<and> (\<forall>c\<in>set (columns (dropna df)). c \<in> set (columns df))
   \<and> (wf_frame df \<longrightarrow> wf_frame (dropna df))"
  by (auto simp: dropna_def wf_frame_def list_all_iff distinct_map_filter)

theorem dropna_frame_witness:
  "wf_frame ex_gap
   \<and> index (dropna ex_gap) = [0, 1]
   \<and> subseq (columns (dropna ex_gap)) (columns ex_gap)
   \<and> (''SPY'', [Fin 5, Fin 6]) \<in> set (columns (dropna ex_gap))
   \<and> wf_frame (dropna ex_gap)"
proof -
  have wf: "wf_frame ex_gap"
    by (simp add: ex_gap_def wf_frame_def)
  have "(''SPY'', [Fin 5, Fin 6]) \<in> set (columns (dropna ex_gap))"
    by (simp add: ex_gap_def dropna_def isna_def)
  moreover have "index ex_gap = [0, 1]"
    by (simp add: ex_gap_def)
  ultimately show ?thesis
    using dropna_frame [of ex_gap] wf by simp
qed

section \<open>The missing benchmark\<close>

text \<open>
  C8. When the cleaned table has no column \<^verbatim>\<open>SPY\<close>, the run ends with the KeyError that
  line 33 raises: there is no report, so no metrics, counts or candidates.
\<close>

theorem missing_benchmark_aborts:
  assumes "''SPY'' \<notin> fst ` set (columns (dropna raw))"
  shows "run raw = Inl (KeyError ''SPY'')"
  using assms by (simp add: run_def metrics_engine_def getitem_absent)

theorem missing_benchmark_aborts_witness:
  "''SPY'' \<notin> fst ` set (columns (dropna ex_no_spy)) \<and> run ex_no_spy = Inl (KeyError ''SPY'')"
proof -
  have h: "''SPY'' \<notin> fst ` set (columns (dropna ex_no_spy))"
    by (simp add: ex_no_spy_def dropna_def isna_def)
  from missing_benchmark_aborts [OF h] h show ?thesis by simp
qed

section \<open>The screener\<close>

lemma fl_lt_NaN_right [simp]: "\<not> fl_lt a NaN"
  by (cases a) simp_all

lemma fl_lt_irrefl [simp]: "\<not> fl_lt a a"
  by (cases a) simp_all

lemma fl_lt_trans: "fl_lt a b \<Longrightarrow> fl_lt b c \<Longrightarrow> fl_lt a c"
  by (cases a; cases b; cases c) simp_all

lemma fl_lt_asym: "fl_lt a b \<Longrightarrow> \<not> fl_lt b a"
  by (cases a; cases b) simp_all

lemma fl_not_lt_le: "a \<noteq> NaN \<Longrightarrow> b \<noteq> NaN \<Longrightarrow> \<not> fl_lt a b \<Longrightarrow> fl_le b a"
  by (cases a; cases b) (auto simp: fl_le_def isna_def)

lemma fl_le_trans: "fl_le a b \<Longrightarrow> fl_le b c \<Longrightarrow> fl_le a c"
  by (auto simp: fl_le_def dest: fl_lt_trans)

lemma fl_le_not_NaN: "fl_le a b \<Longrightarrow> a \<noteq> NaN \<and> b \<noteq> NaN"
  by (cases a; cases b) (auto simp: fl_le_def isna_def)

lemma mset_insort_row: "mset (insort_row r ys) = add_mset r (mset ys)"
  by (induction ys) auto

lemma mset_sort_asc: "mset (sort_asc rs) = mset rs"
  by (induction rs) (auto simp: mset_insort_row)

lemma set_insort_row: "set (insort_row r ys) = insert r (set ys)"
  using mset_insort_row [of r ys, THEN arg_cong, of set_mset] by simp

lemma set_sort_asc: "set (sort_asc rs) = set rs"
  using mset_sort_asc [of rs, THEN arg_cong, of set_mset] by simp

lemma sorted_insort_row:
  assumes "sorted_wrt asc ys" "Distance_SMA r \<noteq> NaN" "\<forall>y\<in>set ys. Distance_SMA y \<noteq> NaN"
  shows "sorted_wrt asc (insort_row r ys)"
  using assms
proof (induction ys)
  case Nil
  then show ?case by simp
next
  case (Cons y ys)
  show ?case
  proof (cases "fl_lt (Distance_SMA y) (Distance_SMA r)")
    case True
    then have "asc y r" by (simp add: fl_le_def)
    with Cons show ?thesis using True by (auto simp: set_insort_row)
  next
    case False
    with Cons.prems have ry: "asc r y" by (simp add: fl_not_lt_le)
    then have "\<forall>z\<in>set ys. asc r z"
      using Cons.prems(1) by (auto intro: fl_le_trans)
    with ry Cons.prems(1) False show ?thesis by simp
  qed
qed

lemma sorted_sort_asc:
  "\<forall>r\<in>set rs. Distance_SMA r \<noteq> NaN \<Longrightarrow> sorted_wrt asc (sort_asc rs)"
  by (induction rs) (auto simp: sorted_insort_row set_sort_asc)

lemma sort_values_desc_no_nan:
  assumes "\<forall>r\<in>set rs. Distance_SMA r \<noteq> NaN"
  shows "sort_values_desc rs = rev (sort_asc (rev rs))"
proof -
  have "filter (\<lambda>r. \<not> isna (Distance_SMA r)) rs = rs"
    using assms by (simp add: isna_def)
  moreover have "filter (\<lambda>r. isna (Distance_SMA r)) rs = []"
    using assms by (simp add: isna_def)
  ultimately show ?thesis by (simp add: sort_values_desc_def)
qed

lemma mset_sort_values_desc: "mset (sort_values_desc rs) = mset rs"
  by (simp add: sort_values_desc_def mset_sort_asc)

lemma sorted_sort_values_desc:
  assumes "\<forall>r\<in>set rs. Distance_SMA r \<noteq> NaN"
  shows "sorted_wrt (\<lambda>a b. asc b a) (sort_values_desc rs)"
proof -
  have "sorted_wrt asc (sort_asc (rev rs))"
    using assms by (simp add: sorted_sort_asc)
  then show ?thesis
    using assms by (simp add: sort_values_desc_no_nan sorted_wrt_rev)
qed

lemma passes_no_nan: "passes f c r \<Longrightarrow> Distance_SMA r \<noteq> NaN"
  by (auto simp: passes_def fl_gt_def)

lemma screener_with_passes:
  "screener_with f c m = take 5 (sort_values_desc (filter (passes f c) m))"
  by (simp add: screener_with_def passes_def[abs_def])

lemma set_sort_values_desc: "set (sort_values_desc rs) = set rs"
  using mset_sort_values_desc [of rs, THEN arg_cong, of set_mset] by simp

lemma screener_with_members:
  assumes "r \<in> set (screener_with f c m)"
  shows "r \<in> set m \<and> passes f c r"
proof -
  from assms have "r \<in> set (sort_values_desc (filter (passes f c) m))"
    unfolding screener_with_passes by (rule in_set_takeD)
  then show ?thesis
    by (simp add: set_sort_values_desc)
qed

text \<open>
  C6. For every metrics table and every pair of thresholds, the screener's output is
  the first five rows of a rearrangement of exactly the rows with trend distance above
  the floor and volatility below the ceiling, in descending order of trend distance; it
  is itself in descending order, has at most five rows, and each of its rows is a row of
  the table that satisfies both comparisons. The script's screener is the one at
  thresholds 5 and 25.
\<close>

theorem screener_with_correct:
  "(\<exists>zs. mset zs = mset (filter (passes trend_floor vol_ceiling) m)
         \<and> sorted_wrt (\<lambda>a b. fl_le (Distance_SMA b) (Distance_SMA a)) zs
         \<and> screener_with trend_floor vol_ceiling m = take 5 zs)
   \<and> sorted_wrt (\<lambda>a b. fl_le (Distance_SMA b) (Distance_SMA a))
        (screener_with trend_floor vol_ceiling m)
   \<and> length (screener_with trend_floor vol_ceiling m) \<le> 5
   \<and> (\<forall>r\<in>set (screener_with trend_floor vol_ceiling m).
         r \<in> set m \<and> fl_gt (Distance_SMA r) (Fin trend_floor)
         \<and> fl_lt (Volatility r) (Fin vol_ceiling))
   \<and> screener m = screener_with 5 25 m"
proof -
  let ?P = "passes trend_floor vol_ceiling"
  let ?zs = "sort_values_desc (filter ?P m)"
  let ?desc = "\<lambda>a b. fl_le (Distance_SMA b) (Distance_SMA a)"
  have out: "screener_with trend_floor vol_ceiling m = take 5 ?zs"
    by (rule screener_with_passes)
  have perm: "mset ?zs = mset (filter ?P m)"
    by (rule mset_sort_values_desc)
  have "\<forall>r\<in>set (filter ?P m). Distance_SMA r \<noteq> NaN"
    using passes_no_nan [of trend_floor vol_ceiling] by simp
  then have srt: "sorted_wrt ?desc ?zs"
    by (rule sorted_sort_values_desc)
  have srt5: "sorted_wrt ?desc (screener_with trend_floor vol_ceiling m)"
    unfolding out using srt by (rule sorted_wrt_take)
  have ex: "\<exists>zs. mset zs = mset (filter ?P m) \<and> sorted_wrt ?desc zs
      \<and> screener_with trend_floor vol_ceiling m = take 5 zs"
    using out perm srt by blast
  have len: "length (screener_with trend_floor vol_ceiling m) \<le> 5"
    unfolding out by simp
  have mem: "\<forall>r\<in>set (screener_with trend_floor vol_ceiling m).
         r \<in> set m \<and> fl_gt (Distance_SMA r) (Fin trend_floor)
         \<and> fl_lt (Volatility r) (Fin vol_ceiling)"
    using screener_with_members [of _ trend_floor vol_ceiling m]
    by (simp add: passes_def)
  have scr: "screener m = screener_with 5 25 m"
    by (simp add: screener_def)
  from ex srt5 len mem scr show ?thesis
    by (intro conjI)
qed

theorem screener_with_correct_witness:
  "map Ticker (screener ex_metrics) = [''K'', ''D'', ''J'', ''A'', ''I'']
   \<and> length (screener_with 5 25 ex_metrics) \<le> 5
   \<and> sorted_wrt (\<lambda>a b. fl_le (Distance_SMA b) (Distance_SMA a)) (screener_with 5 25 ex_metrics)"
proof -
  have "map Ticker (screener ex_metrics) = [''K'', ''D'', ''J'', ''A'', ''I'']"
    by (simp add: screener_def screener_with_def sort_values_desc_def ex_metrics_def
        fl_gt_def isna_def)
  then show ?thesis
    using screener_with_correct [of 5 25 ex_metrics] by simp
qed

section \<open>Rows of the metrics table\<close>

lemma metrics_engine_Inr:
  assumes "metrics_engine data = Inr m"
  obtains spy where "getitem data ''SPY'' = Inr spy" "index data \<noteq> []"
    "m = map (metrics_row_of spy) (filter (\<lambda>c. fst c \<noteq> ''SPY'') (columns data))"
  using assms 
  by (auto simp: metrics_engine_def drop_column_def split: sum.splits if_splits)

lemma Ticker_metrics_row_of [simp]: "Ticker (metrics_row_of spy c) = fst c"
  by (simp add: metrics_row_of_def)

lemma metrics_row_present:
  assumes "metrics_engine data = Inr m" "(s, xs) \<in> set (columns data)" "s \<noteq> ''SPY''"
  obtains spy where "getitem data ''SPY'' = Inr spy" "metrics_row_of spy (s, xs) \<in> set m"
proof -
  from assms(1) obtain spy where g: "getitem data ''SPY'' = Inr spy"
    and m: "m = map (metrics_row_of spy) (filter (\<lambda>c. fst c \<noteq> ''SPY'') (columns data))"
    by (rule metrics_engine_Inr)
  have "(s, xs) \<in> set (filter (\<lambda>c. fst c \<noteq> ''SPY'') (columns data))"
    using assms(2,3) by simp
  then have "metrics_row_of spy (s, xs) \<in> set m"
    unfolding m by (simp only: set_map) (rule imageI)
  with g show ?thesis by (rule that)
qed

lemma metrics_row_unique:
  assumes "metrics_engine data = Inr m" "distinct (map fst (columns data))"
    "(s, xs) \<in> set (columns data)" "r \<in> set m" "Ticker r = s"
    "getitem data ''SPY'' = Inr spy"
  shows "r = metrics_row_of spy (s, xs)"
proof -
  from assms(1) obtain spy' where g: "getitem data ''SPY'' = Inr spy'"
    and m: "m = map (metrics_row_of spy') (filter (\<lambda>c. fst c \<noteq> ''SPY'') (columns data))"
    by (rule metrics_engine_Inr)
  from g assms(6) have s: "spy' = spy" by simp
  from assms(4) obtain c where c: "c \<in> set (columns data)" "r = metrics_row_of spy c"
    unfolding m s by auto
  with assms(5) have "fst c = s" by simp
  then have "(s, snd c) \<in> set (columns data)" using c(1) by (metis prod.collapse)
  with assms(2,3) have "snd c = xs" by (metis eq_key_imp_eq_value)
  with \<open>fst c = s\<close> have "c = (s, xs)" by (metis prod.collapse)
  with c(2) show ?thesis by simp
qed

lemma wf_column_length:
  "wf_frame data \<Longrightarrow> c \<in> set (columns data) \<Longrightarrow> length (snd c) = length (index data)"
  by (simp add: wf_frame_def list_all_iff)

lemma metrics_row_via_column:
  assumes "metrics_engine data = Inr m" "wf_frame data"
    "(s, xs) \<in> set (columns data)" "s \<noteq> ''SPY''"
  obtains spy where "getitem data ''SPY'' = Inr spy"
    "metrics_row_of spy (s, xs) \<in> set m"
    "\<And>r. r \<in> set m \<Longrightarrow> Ticker r = s \<Longrightarrow> r = metrics_row_of spy (s, xs)"
proof -
  from assms(1,3,4) obtain spy where g: "getitem data ''SPY'' = Inr spy"
    and r: "metrics_row_of spy (s, xs) \<in> set m"
    by (rule metrics_row_present)
  from assms(2) have d: "distinct (map fst (columns data))"
    by (simp add: wf_frame_def)
  have "r = metrics_row_of spy (s, xs)" if "r \<in> set m" "Ticker r = s" for r
    using assms(1) d assms(3) that g by (rule metrics_row_unique)
  with g r show ?thesis by (rule that)
qed

lemma getitem_Inr_mem: "getitem df k = Inr xs \<Longrightarrow> (k, xs) \<in> set (columns df)"
  by (auto simp: getitem_def split: option.splits dest: map_of_SomeD)

lemma beta_with_pandas: "beta_with nancov nanvar = beta"
  by (intro ext) (simp add: beta_with_def beta_def)

lemma metrics_row_with_pandas: "metrics_row_with nancov nanvar = metrics_row_of"
  by (intro ext) (simp add: metrics_row_with_def metrics_row_of_def beta_with_pandas)

lemma metrics_engine_with_pandas: "metrics_engine_with nancov nanvar = metrics_engine"
  by (intro ext) (simp only: metrics_engine_with_def metrics_engine_def metrics_row_with_pandas)

lemma metrics_engine_with_returns:
  assumes "getitem data ''SPY'' = Inr spy" "index data \<noteq> []"
  shows "metrics_engine_with cov_f var_f data =
     Inr (map (metrics_row_with cov_f var_f spy) (filter (\<lambda>c. fst c \<noteq> ''SPY'') (columns data)))"
proof -
  from assms(1) have "(''SPY'', spy) \<in> set (columns data)"
    by (rule getitem_Inr_mem)
  then have "''SPY'' \<in> fst ` set (columns data)"
    by (rule image_eqI [rotated]) simp
  with assms show ?thesis
    by (simp add: metrics_engine_with_def drop_column_def)
qed

lemma metrics_engine_returns:
  assumes "getitem data ''SPY'' = Inr spy" "index data \<noteq> []"
  shows "metrics_engine data =
     Inr (map (metrics_row_of spy) (filter (\<lambda>c. fst c \<noteq> ''SPY'') (columns data)))"
  using metrics_engine_with_returns [OF assms, of nancov nanvar]
  by (simp add: metrics_engine_with_pandas metrics_row_with_pandas)

lemma wf_dropna: "wf_frame df \<Longrightarrow> wf_frame (dropna df)"
  by (auto simp: dropna_def wf_frame_def list_all_iff distinct_map_filter)

lemmas stat_defs = beta_def volatility_def nanstd_def nancov_def np_cov_def nanvar_def pct_change_def
  fl_mean_def fl_sub_def inf_of_sign_def isna_def

section \<open>Trend distance\<close>

lemma fl_sum_Fin: "fl_sum (map Fin ps) = Fin (sum_list ps)"
  by (induction ps) simp_all

lemma fl_mean_Fin: "ps \<noteq> [] \<Longrightarrow> fl_mean (map Fin ps) = Fin (sum_list ps / real (length ps))"
  by (simp add: fl_mean_def fl_sum_Fin)

lemma last_rolling_mean:
  assumes "xs \<noteq> []"
  shows "last (rolling_mean w xs) =
           (if length xs < w then NaN else fl_mean (take w (drop (length xs - w) xs)))"
proof -
  from assms have n: "0 < length xs" by simp
  then have ne: "[0..<length xs] \<noteq> []" by simp
  have l: "last [0..<length xs] = length xs - 1"
    using n by (simp add: last_upt)
  have c: "length xs - 1 + 1 = length xs"
    using n by simp
  show ?thesis
    unfolding rolling_mean_def last_map [OF ne] l c by simp
qed

lemma dist_sma_short:
  assumes "xs \<noteq> []" "length xs < 50"
  shows "dist_sma xs = NaN"
proof -
  have "last (rolling_mean 50 xs) = NaN"
    using assms by (simp add: last_rolling_mean)
  then show ?thesis
    by (cases "last xs") (simp_all add: dist_sma_def fl_sub_def Let_def)
qed

lemma dist_sma_window:
  assumes "50 \<le> length xs"
  shows "dist_sma xs =
     fl_mul (fl_div (fl_sub (last xs) (fl_mean (drop (length xs - 50) xs)))
                    (fl_mean (drop (length xs - 50) xs))) (Fin 100)"
proof -
  from assms have "xs \<noteq> []" by auto
  then have "last (rolling_mean 50 xs) = fl_mean (take 50 (drop (length xs - 50) xs))"
    using assms by (simp add: last_rolling_mean)
  moreover have "take 50 (drop (length xs - 50) xs) = drop (length xs - 50) xs"
    using assms by simp
  ultimately show ?thesis
    by (simp add: dist_sma_def Let_def)
qed

lemma dist_sma_Fin:
  assumes "50 \<le> length ps"
  shows "dist_sma (map Fin ps) =
     fl_mul (fl_div (Fin (last ps - last_sma ps)) (Fin (last_sma ps))) (Fin 100)"
proof -
  from assms have ne: "ps \<noteq> []" by auto
  have d: "drop (length ps - 50) (map Fin ps) = map Fin (drop (length ps - 50) ps)"
    by (simp add: drop_map)
  have dne: "drop (length ps - 50) ps \<noteq> []"
    using assms ne by simp
  have len: "length (drop (length ps - 50) ps) = 50"
    using assms by simp
  have "fl_mean (map Fin (drop (length ps - 50) ps)) = Fin (last_sma ps)"
    unfolding fl_mean_Fin [OF dne] len last_sma_def by simp
  then have m: "fl_mean (drop (length (map Fin ps) - 50) (map Fin ps)) = Fin (last_sma ps)"
    by (simp add: d)
  have l: "last (map Fin ps) = Fin (last ps)"
    using ne by (simp add: last_map)
  have "50 \<le> length (map Fin ps)" using assms by simp
  from dist_sma_window [OF this] show ?thesis
    unfolding m l by (simp add: fl_sub_def)
qed

lemma dist_sma_Fin_nonzero:
  assumes "50 \<le> length ps" "last_sma ps \<noteq> 0"
  shows "dist_sma (map Fin ps) = Fin (trend_distance ps)"
  using assms by (simp add: dist_sma_Fin trend_distance_def)

lemma wf_ex_trend: "wf_frame ex_trend"
  by (simp add: ex_trend_def wf_frame_def)

lemma metrics_ex_trend: "metrics_engine ex_trend = Inr [ex_trend_aapl, ex_trend_ko]"
  by (simp add: ex_trend_def ex_trend_aapl_def ex_trend_ko_def metrics_engine_def getitem_def
      drop_column_def)

lemma last_sma_ex_aapl: "last_sma (replicate 49 100 @ [150]) = 101"
  by (simp add: last_sma_def sum_list_replicate)


text \<open>
  C3. In a table with at least fifty rows, the trend distance of every asset whose closes
  are finite is the last close less the mean of the last fifty closes (the last day
  included), over that mean, times 100, in the division of floats; when the mean is not
  zero this is the finite number \<open>(last_close - last_sma) / last_sma * 100\<close>. There is
  exactly one such value per ticker.
\<close>

theorem trend_distance_formula:
  assumes "metrics_engine data = Inr m" and "wf_frame data"
    and "50 \<le> length (index data)"
    and "(s, map Fin ps) \<in> set (columns data)" and "s \<noteq> ''SPY''"
  shows "(\<exists>r\<in>set m. Ticker r = s)
     \<and> (\<forall>r\<in>set m. Ticker r = s \<longrightarrow>
           Distance_SMA r =
             fl_mul (fl_div (Fin (last ps - last_sma ps)) (Fin (last_sma ps))) (Fin 100)
           \<and> (last_sma ps \<noteq> 0 \<longrightarrow> Distance_SMA r = Fin (trend_distance ps)))"
proof -
  from assms(1,2,4,5) obtain spy
    where "getitem data ''SPY'' = Inr spy"
      and r: "metrics_row_of spy (s, map Fin ps) \<in> set m"
      and u: "\<And>r. r \<in> set m \<Longrightarrow> Ticker r = s \<Longrightarrow> r = metrics_row_of spy (s, map Fin ps)"
    by (rule metrics_row_via_column) blast
  from assms(2,4) have "length (snd (s, map Fin ps)) = length (index data)"
    by (rule wf_column_length)
  with assms(3) have len: "50 \<le> length ps" by simp
  have d: "Distance_SMA (metrics_row_of spy (s, map Fin ps)) =
      fl_mul (fl_div (Fin (last ps - last_sma ps)) (Fin (last_sma ps))) (Fin 100)"
    using dist_sma_Fin [OF len] by (simp add: metrics_row_of_def)
  have d': "Distance_SMA (metrics_row_of spy (s, map Fin ps)) = Fin (trend_distance ps)"
    if "last_sma ps \<noteq> 0"
    using dist_sma_Fin_nonzero [OF len that] by (simp add: metrics_row_of_def)
  have ex: "\<exists>r\<in>set m. Ticker r = s"
    using r by (rule bexI [rotated]) simp
  have all: "\<forall>r\<in>set m. Ticker r = s \<longrightarrow>
           Distance_SMA r =
             fl_mul (fl_div (Fin (last ps - last_sma ps)) (Fin (last_sma ps))) (Fin 100)
           \<and> (last_sma ps \<noteq> 0 \<longrightarrow> Distance_SMA r = Fin (trend_distance ps))"
  proof (intro ballI impI conjI)
    fix r assume "r \<in> set m" "Ticker r = s"
    then have e: "r = metrics_row_of spy (s, map Fin ps)" by (rule u)
    show "Distance_SMA r =
        fl_mul (fl_div (Fin (last ps - last_sma ps)) (Fin (last_sma ps))) (Fin 100)"
      unfolding e by (rule d)
    show "Distance_SMA r = Fin (trend_distance ps)" if "last_sma ps \<noteq> 0"
      unfolding e using that by (rule d')
  qed
  from ex all show ?thesis by (rule conjI)
qed

theorem trend_distance_formula_witness:
  "metrics_engine ex_trend = Inr [ex_trend_aapl, ex_trend_ko]
   \<and> wf_frame ex_trend \<and> 50 \<le> length (index ex_trend)
   \<and> last_sma (replicate 49 100 @ [150]) = 101
   \<and> Distance_SMA ex_trend_aapl = Fin (4900 / 101)"
proof -
  have len: "50 \<le> length (index ex_trend)" by (simp add: ex_trend_def)
  have col: "(''AAPL'', map Fin (replicate 49 100 @ [150])) \<in> set (columns ex_trend)"
    by (simp add: ex_trend_def)
  have t: "Ticker ex_trend_aapl = ''AAPL''" by (simp add: ex_trend_aapl_def)
  have td: "trend_distance (replicate 49 100 @ [150]) = 4900 / 101"
    by (simp add: trend_distance_def last_sma_ex_aapl)
  from trend_distance_formula [OF metrics_ex_trend wf_ex_trend len col]
  have "Distance_SMA ex_trend_aapl = Fin (4900 / 101)"
    using t td last_sma_ex_aapl by simp
  with metrics_ex_trend wf_ex_trend len last_sma_ex_aapl show ?thesis by simp
qed






section \<open>Short histories\<close>

lemma NaN_not_bullish: "Distance_SMA r = NaN \<Longrightarrow> \<not> bullish r"
  by (simp add: bullish_def fl_gt_def)

lemma observations_full: "\<not> list_ex isna (snd c) \<Longrightarrow> observations c = length (snd c)"
  by (simp add: observations_def list_ex_iff)

lemma metrics_ex_short: "metrics_engine (dropna ex_short) = Inr [ex_short_row]"
  by (simp add: ex_short_def ex_short_row_def metrics_engine_def dropna_def getitem_def
      drop_column_def isna_def)

lemma metrics_ex_ipo: "metrics_engine (dropna ex_ipo) = Inr [ex_ipo_old]"
  by (simp add: ex_ipo_def ex_ipo_old_def metrics_engine_def dropna_def getitem_def
      drop_column_def isna_def list_ex_iff)

text \<open>
  C2 on a table of three days: the asset has three observations and its row is in the
  metrics table with NaN as trend distance.
\<close>

theorem short_history_counterexample:
  "observations (''A'', [Fin 100, Fin 110, Fin 121]) = 3
   \<and> metrics_engine (dropna ex_short) =
       Inr [\<lparr>Ticker = ''A'', Distance_SMA = NaN, Volatility = Fin 0, Beta = Fin 0\<rparr>]"
proof -
  have d: "dist_sma [Fin 100, Fin 110, Fin 121] = NaN"
    by (rule dist_sma_short) simp_all
  have v: "volatility [Fin 100, Fin 110, Fin 121] = Fin 0"
    by (simp add: stat_defs)
  have b: "beta [Fin 100, Fin 110, Fin 121] [Fin 50, Fin 55, Fin 66] = Fin 0"
    by (simp add: stat_defs)
  have o: "observations (''A'', [Fin 100, Fin 110, Fin 121]) = 3"
    by (simp add: observations_def isna_def)
  have "metrics_engine (dropna ex_short) =
       Inr [\<lparr>Ticker = ''A'', Distance_SMA = NaN, Volatility = Fin 0, Beta = Fin 0\<rparr>]"
    by (simp add: metrics_ex_short ex_short_row_def metrics_row_of_def d v b)
  with o show ?thesis by (rule conjI)
qed

text \<open>
  C2. Take an asset with fewer than fifty observations in a well-formed table that has a
  clean benchmark column and at least one row; lines 30 to 74 raise nothing on it. If the
  asset's column has a missing cell, the cleaner drops it and the metrics table has no
  row for it. Otherwise the whole table has fewer than fifty rows, and the asset has a
  row whose trend distance is NaN (not 0), with no flag, and it is not counted bullish.
  In both cases no row of the asset is among the candidates that line 137 takes from the
  metrics table.
\<close>

theorem few_observations:
  assumes "wf_frame raw" and "getitem (dropna raw) ''SPY'' = Inr spy" and "index raw \<noteq> []"
    and "c \<in> set (columns raw)" and "fst c \<noteq> ''SPY''"
    and "observations c < 50"
  shows "\<exists>m. metrics_engine (dropna raw) = Inr m
     \<and> (list_ex isna (snd c) \<longrightarrow> (\<forall>r\<in>set m. Ticker r \<noteq> fst c))
     \<and> (\<not> list_ex isna (snd c) \<longrightarrow>
          length (index raw) < 50
          \<and> (\<exists>r\<in>set m. Ticker r = fst c)
          \<and> (\<forall>r\<in>set m. Ticker r = fst c \<longrightarrow> Distance_SMA r = NaN \<and> \<not> bullish r))
     \<and> (\<forall>r\<in>set (screener m). Ticker r \<noteq> fst c)"
proof -
  let ?cs = "filter (\<lambda>c. fst c \<noteq> ''SPY'') (columns (dropna raw))"
  let ?m = "map (metrics_row_of spy) ?cs"
  have idx: "index (dropna raw) \<noteq> []" using assms(3) by (simp add: dropna_def)
  have e: "metrics_engine (dropna raw) = Inr ?m"
    using assms(2) idx by (rule metrics_engine_returns)
  from assms(1) have dist: "distinct (map fst (columns raw))" by (simp add: wf_frame_def)
  have src: "\<exists>c'. c' \<in> set (columns raw) \<and> \<not> list_ex isna (snd c') \<and> fst c' = Ticker r
      \<and> r = metrics_row_of spy c'" if "r \<in> set ?m" for r
    using that by (auto simp: dropna_def)
  have same: "c' = c" if "c' \<in> set (columns raw)" "fst c' = fst c" for c'
  proof -
    from that(1) have "(fst c', snd c') \<in> set (columns raw)" by simp
    moreover from assms(4) have "(fst c, snd c) \<in> set (columns raw)" by simp
    ultimately have "snd c' = snd c"
      using dist that(2) by (metis eq_key_imp_eq_value)
    with that(2) show ?thesis by (simp add: prod_eq_iff)
  qed
  have dropped: "\<forall>r\<in>set ?m. Ticker r \<noteq> fst c" if "list_ex isna (snd c)"
  proof
    fix r assume "r \<in> set ?m"
    then obtain c' where c': "c' \<in> set (columns raw)" "\<not> list_ex isna (snd c')"
      "fst c' = Ticker r" using src by blast
    show "Ticker r \<noteq> fst c"
    proof
      assume "Ticker r = fst c"
      with c' have "c' = c" by (intro same) simp_all
      with c'(2) that show False by simp
    qed
  qed
  have nan: "Distance_SMA (metrics_row_of spy c) = NaN" if "\<not> list_ex isna (snd c)"
  proof -
    from assms(1,4) have len: "length (snd c) = length (index raw)"
      by (rule wf_column_length)
    with assms(3) have "snd c \<noteq> []" by auto
    moreover from that assms(6) have "length (snd c) < 50"
      by (simp add: observations_full)
    ultimately have "dist_sma (snd c) = NaN" by (rule dist_sma_short)
    then show ?thesis by (simp add: metrics_row_of_def)
  qed
  have short: "length (index raw) < 50" if "\<not> list_ex isna (snd c)"
  proof -
    from assms(1,4) have "length (snd c) = length (index raw)"
      by (rule wf_column_length)
    with that assms(6) show ?thesis by (simp add: observations_full)
  qed
  have kept: "(\<exists>r\<in>set ?m. Ticker r = fst c)
      \<and> (\<forall>r\<in>set ?m. Ticker r = fst c \<longrightarrow> Distance_SMA r = NaN \<and> \<not> bullish r)"
    if clean: "\<not> list_ex isna (snd c)"
  proof
    from assms(4,5) clean have "c \<in> set ?cs" by (simp add: dropna_def)
    then have "metrics_row_of spy c \<in> set ?m" by simp
    then show "\<exists>r\<in>set ?m. Ticker r = fst c"
      by (rule bexI [rotated]) simp
    show "\<forall>r\<in>set ?m. Ticker r = fst c \<longrightarrow> Distance_SMA r = NaN \<and> \<not> bullish r"
    proof (intro ballI impI)
      fix r assume "r \<in> set ?m" "Ticker r = fst c"
      then obtain c' where c': "c' \<in> set (columns raw)" "fst c' = fst c"
        and r: "r = metrics_row_of spy c'"
        using src by force
      from c' have "c' = c" by (rule same)
      with r have "r = metrics_row_of spy c" by simp
      with nan [OF clean] show "Distance_SMA r = NaN \<and> \<not> bullish r"
        by (simp add: NaN_not_bullish)
    qed
  qed
  have scr: "\<forall>r\<in>set (screener ?m). Ticker r \<noteq> fst c"
  proof
    fix r assume r: "r \<in> set (screener ?m)"
    then have "r \<in> set ?m \<and> passes 5 25 r"
      unfolding screener_def by (rule screener_with_members)
    then have rm: "r \<in> set ?m" and nn: "Distance_SMA r \<noteq> NaN"
      by (auto dest: passes_no_nan)
    show "Ticker r \<noteq> fst c"
    proof (cases "list_ex isna (snd c)")
      case True
      with dropped rm show ?thesis by blast
    next
      case False
      with kept rm nn show ?thesis by blast
    qed
  qed
  from e dropped short kept scr show ?thesis by blast
qed

theorem few_observations_witness:
  "wf_frame ex_short
   \<and> observations (''A'', [Fin 100, Fin 110, Fin 121]) = 3
   \<and> metrics_engine (dropna ex_short) = Inr [ex_short_row]
   \<and> Ticker ex_short_row = ''A''
   \<and> Distance_SMA ex_short_row = NaN
   \<and> \<not> bullish ex_short_row
   \<and> ''A'' \<notin> set (map Ticker (screener [ex_short_row]))
   \<and> wf_frame ex_ipo
   \<and> observations (''NEW'', replicate 30 NaN @ replicate 30 (Fin 10)) = 30
   \<and> metrics_engine (dropna ex_ipo) = Inr [ex_ipo_old]
   \<and> ''NEW'' \<notin> set (map Ticker [ex_ipo_old])
   \<and> ''NEW'' \<notin> set (map Ticker (screener [ex_ipo_old]))"
proof -
  have wf1: "wf_frame ex_short" by (simp add: ex_short_def wf_frame_def)
  have g1: "getitem (dropna ex_short) ''SPY'' = Inr [Fin 50, Fin 55, Fin 66]"
    by (simp add: ex_short_def dropna_def getitem_def isna_def)
  have ne1: "index ex_short \<noteq> []" by (simp add: ex_short_def)
  have c1: "(''A'', [Fin 100, Fin 110, Fin 121]) \<in> set (columns ex_short)"
    by (simp add: ex_short_def)
  have o1: "observations (''A'', [Fin 100, Fin 110, Fin 121]) = 3"
    by (simp add: observations_def isna_def)
  have clean1: "\<not> list_ex isna (snd (''A'', [Fin 100, Fin 110, Fin 121]))"
    by (simp add: isna_def)
  have t1: "Ticker ex_short_row = ''A''" by (simp add: ex_short_row_def)
  from few_observations [OF wf1 g1 ne1 c1] o1 clean1 t1
  have r1: "Distance_SMA ex_short_row = NaN \<and> \<not> bullish ex_short_row
      \<and> ''A'' \<notin> set (map Ticker (screener [ex_short_row]))"
    by (auto simp: metrics_ex_short)
  have wf2: "wf_frame ex_ipo" by (simp add: ex_ipo_def wf_frame_def)
  have g2: "getitem (dropna ex_ipo) ''SPY'' = Inr (replicate 60 (Fin 400))"
    by (simp add: ex_ipo_def dropna_def getitem_def isna_def list_ex_iff)
  have ne2: "index ex_ipo \<noteq> []" by (simp add: ex_ipo_def)
  have c2: "(''NEW'', replicate 30 NaN @ replicate 30 (Fin 10)) \<in> set (columns ex_ipo)"
    by (simp add: ex_ipo_def)
  have o2: "observations (''NEW'', replicate 30 NaN @ replicate 30 (Fin 10)) = 30"
    by (simp add: observations_def isna_def)
  have gap2: "list_ex isna (snd (''NEW'', replicate 30 NaN @ replicate 30 (Fin 10)))"
    by (simp add: isna_def list_ex_iff)
  from few_observations [OF wf2 g2 ne2 c2] o2 gap2
  have r2: "''NEW'' \<notin> set (map Ticker [ex_ipo_old])
      \<and> ''NEW'' \<notin> set (map Ticker (screener [ex_ipo_old]))"
    by (auto simp: metrics_ex_ipo)
  from wf1 o1 metrics_ex_short t1 r1 wf2 o2 metrics_ex_ipo r2 show ?thesis
    by (intro conjI) simp_all
qed

section \<open>Volatility\<close>

lemma length_returns_of: "length (returns_of ps) = length ps - 1"
  by (simp add: returns_of_def)

lemma pct_change_zip_Fin:
  assumes "\<forall>p\<in>set bs. p \<noteq> 0"
  shows "map (\<lambda>(x, prev). fl_sub (fl_div x prev) (Fin 1)) (zip (map Fin as) (map Fin bs)) =
         map Fin (map (\<lambda>(x, prev). x / prev - 1) (zip as bs))"
  using assms
proof (induction as arbitrary: bs)
  case Nil
  then show ?case by simp
next
  case (Cons a as)
  then show ?case by (cases bs) (simp_all add: fl_sub_def)
qed

lemma pct_change_Fin:
  assumes "ps \<noteq> []" "\<forall>p\<in>set ps. p \<noteq> 0"
  shows "pct_change (map Fin ps) = NaN # map Fin (returns_of ps)"
proof -
  from assms(1) obtain p qs where ps: "ps = p # qs" by (cases ps) auto
  have "pct_change (map Fin ps) =
      fl_sub (fl_div (Fin p) NaN) (Fin 1)
        # map (\<lambda>(x, prev). fl_sub (fl_div x prev) (Fin 1)) (zip (map Fin qs) (map Fin ps))"
    by (simp add: pct_change_def ps)
  also have "fl_sub (fl_div (Fin p) NaN) (Fin 1) = NaN"
    by (simp add: fl_sub_def)
  also have "map (\<lambda>(x, prev). fl_sub (fl_div x prev) (Fin 1)) (zip (map Fin qs) (map Fin ps))
      = map Fin (map (\<lambda>(x, prev). x / prev - 1) (zip qs ps))"
    using assms(2) by (rule pct_change_zip_Fin)
  finally show ?thesis by (simp add: returns_of_def ps)
qed

lemma filter_notna_Fin: "filter (\<lambda>x. \<not> isna x) (map Fin rs) = map Fin rs"
  by (induction rs) (simp_all add: isna_def)

lemma sqr_Fin:
  "map (\<lambda>v. fl_mul (fl_sub (Fin a) v) (fl_sub (Fin a) v)) (map Fin rs) =
   map Fin (map (\<lambda>r. (a - r) * (a - r)) rs)"
  by (induction rs) (simp_all add: fl_sub_def)

lemma sum_sqr_mean: "(\<Sum>r\<leftarrow>rs. (mean rs - r) * (mean rs - r)) = (\<Sum>r\<leftarrow>rs. (r - mean rs)\<^sup>2)"
  by (rule arg_cong [where f = sum_list]) (simp add: power2_eq_square algebra_simps)

lemma nanvar_Fin:
  "nanvar (map Fin rs) = (if length rs \<le> 1 then NaN else Fin (sample_variance rs))"
proof (cases "length rs \<le> 1")
  case True
  then show ?thesis by (simp add: nanvar_def filter_notna_Fin)
next
  case False
  then have ne: "rs \<noteq> []" and n1: "real (length rs) - 1 \<noteq> 0" by auto
  have avg: "fl_mean (map Fin rs) = Fin (mean rs)"
    using fl_mean_Fin [OF ne] by (simp add: mean_def)
  have "nanvar (map Fin rs) =
      fl_div (fl_sum (map Fin (map (\<lambda>r. (mean rs - r) * (mean rs - r)) rs)))
        (Fin (real (length rs) - 1))"
    using False unfolding nanvar_def filter_notna_Fin Let_def avg sqr_Fin by simp
  also have "\<dots> = Fin ((\<Sum>r\<leftarrow>rs. (mean rs - r) * (mean rs - r)) / (real (length rs) - 1))"
    unfolding fl_sum_Fin using n1 by simp
  finally show ?thesis
    using False by (simp add: sample_variance_def sum_sqr_mean)
qed

lemma nanvar_NaN_Cons: "nanvar (NaN # xs) = nanvar xs"
  by (simp add: nanvar_def isna_def)

lemma sample_variance_nonneg:
  assumes "2 \<le> length rs"
  shows "0 \<le> sample_variance rs"
proof -
  have "0 \<le> (\<Sum>r\<leftarrow>rs. (r - mean rs)\<^sup>2)"
    by (rule sum_list_nonneg) auto
  moreover have "0 \<le> real (length rs) - 1"
    using assms by simp
  ultimately show ?thesis
    unfolding sample_variance_def by (rule divide_nonneg_nonneg)
qed

lemma volatility_Fin:
  assumes "ps \<noteq> []" "\<forall>p\<in>set ps. p \<noteq> 0"
  shows "volatility (map Fin ps) = fl_of_option (volatility_pct ps)"
proof -
  let ?rs = "returns_of ps"
  have v: "nanvar (pct_change (map Fin ps)) =
      (if length ?rs \<le> 1 then NaN else Fin (sample_variance ?rs))"
    unfolding pct_change_Fin [OF assms] nanvar_NaN_Cons by (rule nanvar_Fin)
  show ?thesis
  proof (cases "length ?rs \<le> 1")
    case True
    then show ?thesis
      by (simp add: volatility_def nanstd_def v volatility_pct_def sample_std_def)
  next
    case False
    then have "0 \<le> sample_variance ?rs" by (simp add: sample_variance_nonneg)
    with False show ?thesis
      by (simp add: volatility_def nanstd_def v volatility_pct_def sample_std_def)
  qed
qed

text \<open>
  C4. For an asset whose closes are finite and not zero, the returns the script computes
  are an undefined first cell followed by the day-over-day fractional changes, one fewer
  than the closes; the volatility is the sample standard deviation of all these changes
  times the square root of 252 times 100, and NaN when there are fewer than two changes
  (where the sample standard deviation is undefined).
\<close>

theorem volatility_formula:
  assumes "metrics_engine data = Inr m" and "wf_frame data"
    and "2 \<le> length (index data)"
    and "(s, map Fin ps) \<in> set (columns data)" and "s \<noteq> ''SPY''"
    and "\<forall>p\<in>set ps. p \<noteq> 0"
  shows "(\<exists>r\<in>set m. Ticker r = s)
     \<and> pct_change (map Fin ps) = NaN # map Fin (returns_of ps)
     \<and> length (returns_of ps) = length ps - 1
     \<and> (\<forall>r\<in>set m. Ticker r = s \<longrightarrow> Volatility r = fl_of_option (volatility_pct ps))"
proof -
  from assms(1,2,4,5) obtain spy
    where "getitem data ''SPY'' = Inr spy"
      and r: "metrics_row_of spy (s, map Fin ps) \<in> set m"
      and u: "\<And>r. r \<in> set m \<Longrightarrow> Ticker r = s \<Longrightarrow> r = metrics_row_of spy (s, map Fin ps)"
    by (rule metrics_row_via_column) blast
  from assms(2,4) have "length (snd (s, map Fin ps)) = length (index data)"
    by (rule wf_column_length)
  with assms(3) have ne: "ps \<noteq> []" by auto
  have v: "Volatility (metrics_row_of spy (s, map Fin ps)) = fl_of_option (volatility_pct ps)"
    using volatility_Fin [OF ne assms(6)] by (simp add: metrics_row_of_def)
  have ex: "\<exists>r\<in>set m. Ticker r = s"
    using r by (rule bexI [rotated]) simp
  have all: "\<forall>r\<in>set m. Ticker r = s \<longrightarrow> Volatility r = fl_of_option (volatility_pct ps)"
  proof (intro ballI impI)
    fix r assume "r \<in> set m" "Ticker r = s"
    then have e: "r = metrics_row_of spy (s, map Fin ps)" by (rule u)
    show "Volatility r = fl_of_option (volatility_pct ps)"
      unfolding e by (rule v)
  qed
  from ex pct_change_Fin [OF ne assms(6)] length_returns_of all show ?thesis
    by (intro conjI)
qed

lemma metrics_ex_vol: "metrics_engine ex_vol = Inr [ex_vol_row]"
  by (simp add: ex_vol_def ex_vol_row_def metrics_engine_def getitem_def drop_column_def)

lemma wf_ex_vol: "wf_frame ex_vol"
  by (simp add: ex_vol_def wf_frame_def)

lemma volatility_pct_ex: "volatility_pct [100, 110, 132] = Some (sqrt (1 / 200) * sqrt 252 * 100)"
proof -
  have r: "returns_of [100, 110, 132] = [1 / 10, 1 / 5]"
    by (simp add: returns_of_def)
  have "sample_variance [1 / 10, 1 / 5] = 1 / 200"
    by (simp add: sample_variance_def mean_def power2_eq_square)
  then show ?thesis
    by (simp add: volatility_pct_def sample_std_def r)
qed

theorem volatility_formula_witness:
  "metrics_engine ex_vol = Inr [ex_vol_row] \<and> wf_frame ex_vol \<and> 2 \<le> length (index ex_vol)
   \<and> returns_of [100, 110, 132] = [1 / 10, 1 / 5]
   \<and> Volatility ex_vol_row = Fin (sqrt (1 / 200) * sqrt 252 * 100)"
proof -
  have len: "2 \<le> length (index ex_vol)" by (simp add: ex_vol_def)
  have col: "(''A'', map Fin [100, 110, 132]) \<in> set (columns ex_vol)"
    by (simp add: ex_vol_def)
  have nz: "\<forall>p\<in>set [100, 110, 132 :: real]. p \<noteq> 0" by simp
  have t: "Ticker ex_vol_row = ''A''" by (simp add: ex_vol_row_def)
  have r: "returns_of [100, 110, 132] = [1 / 10, 1 / 5]"
    by (simp add: returns_of_def)
  from volatility_formula [OF metrics_ex_vol wf_ex_vol len col _ nz]
  have "Volatility ex_vol_row = Fin (sqrt (1 / 200) * sqrt 252 * 100)"
    using t by (simp add: volatility_pct_ex)
  with metrics_ex_vol wf_ex_vol len r show ?thesis by simp
qed

section \<open>Beta\<close>

















section \<open>A benchmark without variance\<close>

lemma fl_div_zero: "fl_div cov (Fin 0) = inf_of_sign (fl_sign cov)"
  by (cases cov) (simp_all add: inf_of_sign_def)

lemma inf_of_sign_cases: "inf_of_sign s = NaN \<or> inf_of_sign s = PInf \<or> inf_of_sign s = NInf"
  by (simp add: inf_of_sign_def)

lemma beta_with_zero_var:
  assumes "var_f (pct_change spy) = Fin 0"
  shows "beta_with cov_f var_f xs spy =
           inf_of_sign (fl_sign (cov_f (pct_change xs) (pct_change spy)))"
  using assms by (simp add: beta_with_def Let_def fl_div_zero)

text \<open>
  C1. Whatever the library returns for the covariance and the variance: when the variance
  of the benchmark's returns is exactly zero, lines 33 to 74 raise nothing on a table with
  a benchmark column and at least one row, the metrics table has one row for every column
  other than the benchmark, and the beta of each row is the quotient of line 65 by zero:
  NaN when the covariance is zero or NaN, the infinity of the covariance's sign otherwise.
  It is never a finite number, and nothing marks it as undefined.
\<close>

theorem zero_variance_beta_unguarded:
  assumes "getitem data ''SPY'' = Inr spy" and "index data \<noteq> []"
    and "var_f (pct_change spy) = Fin 0"
  shows "\<exists>m. metrics_engine_with cov_f var_f data = Inr m
     \<and> map Ticker m = filter (\<lambda>s. s \<noteq> ''SPY'') (map fst (columns data))
     \<and> map Beta m =
         map (\<lambda>c. inf_of_sign (fl_sign (cov_f (pct_change (snd c)) (pct_change spy))))
           (filter (\<lambda>c. fst c \<noteq> ''SPY'') (columns data))
     \<and> (\<forall>r\<in>set m. Beta r = NaN \<or> Beta r = PInf \<or> Beta r = NInf)"
proof -
  let ?cs = "filter (\<lambda>c. fst c \<noteq> ''SPY'') (columns data)"
  let ?m = "map (metrics_row_with cov_f var_f spy) ?cs"
  have e: "metrics_engine_with cov_f var_f data = Inr ?m"
    using assms(1,2) by (rule metrics_engine_with_returns)
  have b: "Beta (metrics_row_with cov_f var_f spy c) =
      inf_of_sign (fl_sign (cov_f (pct_change (snd c)) (pct_change spy)))" for c
    using beta_with_zero_var [of var_f spy cov_f "snd c"] assms(3)
    by (simp add: metrics_row_with_def)
  have t: "map Ticker ?m = filter (\<lambda>s. s \<noteq> ''SPY'') (map fst (columns data))"
    by (simp add: filter_map comp_def metrics_row_with_def)
  have bs: "map Beta ?m =
      map (\<lambda>c. inf_of_sign (fl_sign (cov_f (pct_change (snd c)) (pct_change spy)))) ?cs"
    by (simp add: b)
  have nf: "\<forall>r\<in>set ?m. Beta r = NaN \<or> Beta r = PInf \<or> Beta r = NInf"
    by (simp add: b inf_of_sign_cases)
  from e t bs nf show ?thesis by blast
qed

lemma nanvar_ex_flat: "nanvar (pct_change [Fin 50, Fin 50, Fin 50]) = Fin 0"
  by (simp add: stat_defs)

lemma metrics_ex_flat: "metrics_engine (dropna ex_flat) = Inr [ex_flat_row]"
  by (simp add: ex_flat_def ex_flat_row_def metrics_engine_def dropna_def getitem_def
      drop_column_def isna_def)

text \<open>
  C1 on a benchmark flat at 50: the variance of its returns is zero, and the asset's row
  of the metrics table holds NaN as its beta.
\<close>

theorem zero_variance_counterexample:
  "nanvar (pct_change [Fin 50, Fin 50, Fin 50]) = Fin 0
   \<and> metrics_engine (dropna ex_flat) =
       Inr [\<lparr>Ticker = ''A'', Distance_SMA = NaN, Volatility = Fin 0, Beta = NaN\<rparr>]"
proof -
  have d: "dist_sma [Fin 100, Fin 110, Fin 121] = NaN"
    by (rule dist_sma_short) simp_all
  have v: "volatility [Fin 100, Fin 110, Fin 121] = Fin 0"
    by (simp add: stat_defs)
  have b: "beta [Fin 100, Fin 110, Fin 121] [Fin 50, Fin 50, Fin 50] = NaN"
    by (simp add: stat_defs)
  have "metrics_engine (dropna ex_flat) =
       Inr [\<lparr>Ticker = ''A'', Distance_SMA = NaN, Volatility = Fin 0, Beta = NaN\<rparr>]"
    by (simp add: metrics_ex_flat ex_flat_row_def metrics_row_of_def d v b)
  with nanvar_ex_flat show ?thesis by (rule conjI)
qed

theorem zero_variance_beta_unguarded_witness:
  "getitem (dropna ex_flat) ''SPY'' = Inr [Fin 50, Fin 50, Fin 50]
   \<and> index (dropna ex_flat) \<noteq> []
   \<and> nanvar (pct_change [Fin 50, Fin 50, Fin 50]) = Fin 0
   \<and> metrics_engine (dropna ex_flat) = Inr [ex_flat_row]
   \<and> Ticker ex_flat_row = ''A''
   \<and> Beta ex_flat_row = NaN
   \<and> metrics_engine_with (\<lambda>a b. Fin (- 1)) (\<lambda>b. Fin 0) (dropna ex_flat) =
       Inr [metrics_row_with (\<lambda>a b. Fin (- 1)) (\<lambda>b. Fin 0) [Fin 50, Fin 50, Fin 50]
              (''A'', [Fin 100, Fin 110, Fin 121])]
   \<and> Beta (metrics_row_with (\<lambda>a b. Fin (- 1)) (\<lambda>b. Fin 0) [Fin 50, Fin 50, Fin 50]
              (''A'', [Fin 100, Fin 110, Fin 121])) = NInf"
proof -
  have g: "getitem (dropna ex_flat) ''SPY'' = Inr [Fin 50, Fin 50, Fin 50]"
    by (simp add: ex_flat_def dropna_def getitem_def isna_def)
  have ne: "index (dropna ex_flat) \<noteq> []"
    by (simp add: ex_flat_def dropna_def)
  have t: "Ticker ex_flat_row = ''A''" by (simp add: ex_flat_row_def)
  have cols: "filter (\<lambda>c. fst c \<noteq> ''SPY'') (columns (dropna ex_flat)) =
      [(''A'', [Fin 100, Fin 110, Fin 121])]"
    by (simp add: ex_flat_def dropna_def isna_def)
  have cv: "nancov (pct_change [Fin 100, Fin 110, Fin 121]) (pct_change [Fin 50, Fin 50, Fin 50])
      = Fin 0"
    by (simp add: stat_defs)
  from zero_variance_beta_unguarded [where var_f = nanvar and cov_f = nancov, OF g ne nanvar_ex_flat]
  have b1: "Beta ex_flat_row = NaN"
    by (simp add: metrics_engine_with_pandas metrics_ex_flat cols cv inf_of_sign_def)
  have z: "(\<lambda>b. Fin 0) (pct_change [Fin 50, Fin 50, Fin 50]) = Fin 0" by simp
  have e2: "metrics_engine_with (\<lambda>a b. Fin (- 1)) (\<lambda>b. Fin 0) (dropna ex_flat) =
       Inr [metrics_row_with (\<lambda>a b. Fin (- 1)) (\<lambda>b. Fin 0) [Fin 50, Fin 50, Fin 50]
              (''A'', [Fin 100, Fin 110, Fin 121])]"
    using metrics_engine_with_returns [OF g ne] by (simp add: cols)
  from zero_variance_beta_unguarded
    [where var_f = "\<lambda>b. Fin 0" and cov_f = "\<lambda>a b. Fin (- 1)", OF g ne z]
  have b2: "Beta (metrics_row_with (\<lambda>a b. Fin (- 1)) (\<lambda>b. Fin 0) [Fin 50, Fin 50, Fin 50]
              (''A'', [Fin 100, Fin 110, Fin 121])) = NInf"
    by (simp add: e2 cols inf_of_sign_def)
  from g ne nanvar_ex_flat metrics_ex_flat t b1 e2 b2 show ?thesis by (intro conjI)
qed

end
